theory Spec2Isabelle
  imports Complex_Main
begin

section \<open>JavaScript values used by the controller\<close>

text \<open>
  The controller computes with JavaScript numbers. A number is modelled as a finite
  rational, \<open>NaN\<close>, or one of the two infinities. Finite values are exact: the rounding
  of IEEE doubles, which for integers starts beyond \<open>2^53\<close>, and the sign of zero are
  outside the model.
\<close>

datatype number = Fin rat | NaN | PosInf | NegInf

text \<open>\<^verbatim>\<open>Math.max(a, b)\<close> and \<^verbatim>\<open>Math.min(a, b)\<close>: \<open>NaN\<close> as soon as one argument is \<open>NaN\<close>.\<close>

fun js_max :: "number \<Rightarrow> number \<Rightarrow> number" where
  "js_max NaN y = NaN"
| "js_max x NaN = NaN"
| "js_max PosInf y = PosInf"
| "js_max x PosInf = PosInf"
| "js_max NegInf y = y"
| "js_max x NegInf = x"
| "js_max (Fin a) (Fin b) = Fin (max a b)"

fun js_min :: "number \<Rightarrow> number \<Rightarrow> number" where
  "js_min NaN y = NaN"
| "js_min x NaN = NaN"
| "js_min NegInf y = NegInf"
| "js_min x NegInf = NegInf"
| "js_min PosInf y = y"
| "js_min x PosInf = x"
| "js_min (Fin a) (Fin b) = Fin (min a b)"

text \<open>The binary operators \<^verbatim>\<open>-\<close>, \<^verbatim>\<open>*\<close> and \<^verbatim>\<open>/\<close> on numbers.\<close>

fun js_sub :: "number \<Rightarrow> number \<Rightarrow> number" where
  "js_sub NaN y = NaN"
| "js_sub x NaN = NaN"
| "js_sub PosInf PosInf = NaN"
| "js_sub NegInf NegInf = NaN"
| "js_sub PosInf y = PosInf"
| "js_sub NegInf y = NegInf"
| "js_sub (Fin a) PosInf = NegInf"
| "js_sub (Fin a) NegInf = PosInf"
| "js_sub (Fin a) (Fin b) = Fin (a - b)"

definition js_neg :: "number \<Rightarrow> number" where
  "js_neg x = (case x of Fin a \<Rightarrow> Fin (- a) | NaN \<Rightarrow> NaN | PosInf \<Rightarrow> NegInf | NegInf \<Rightarrow> PosInf)"

definition inf_times :: "rat \<Rightarrow> number" where
  "inf_times a = (if a = 0 then NaN else if 0 < a then PosInf else NegInf)"

fun js_mul :: "number \<Rightarrow> number \<Rightarrow> number" where
  "js_mul NaN y = NaN"
| "js_mul x NaN = NaN"
| "js_mul (Fin a) (Fin b) = Fin (a * b)"
| "js_mul (Fin a) PosInf = inf_times a"
| "js_mul (Fin a) NegInf = js_neg (inf_times a)"
| "js_mul PosInf (Fin b) = inf_times b"
| "js_mul NegInf (Fin b) = js_neg (inf_times b)"
| "js_mul PosInf PosInf = PosInf"
| "js_mul NegInf NegInf = PosInf"
| "js_mul PosInf NegInf = NegInf"
| "js_mul NegInf PosInf = NegInf"

fun js_div :: "number \<Rightarrow> number \<Rightarrow> number" where
  "js_div NaN y = NaN"
| "js_div x NaN = NaN"
| "js_div (Fin a) (Fin b) = (if b = 0 then inf_times a else Fin (a / b))"
| "js_div (Fin a) y = Fin 0"
| "js_div PosInf (Fin b) = (if 0 \<le> b then PosInf else NegInf)"
| "js_div NegInf (Fin b) = (if 0 \<le> b then NegInf else PosInf)"
| "js_div x y = NaN"

text \<open>\<^verbatim>\<open>Math.ceil(x)\<close>.\<close>

definition js_ceil :: "number \<Rightarrow> number" where
  "js_ceil x = (case x of Fin a \<Rightarrow> Fin (of_int \<lceil>a\<rceil>) | other \<Rightarrow> other)"

subsection \<open>\<^verbatim>\<open>parseInt(s, 10)\<close>\<close>

text \<open>
  \<^verbatim>\<open>parseInt\<close> with radix 10 skips leading white space, reads an optional sign, and
  then the longest prefix of decimal digits; with no digit the result is \<open>NaN\<close>. The
  white space recognised here is the ASCII part of the language's white space.
\<close>

definition is_space :: "char \<Rightarrow> bool" where
  "is_space c \<longleftrightarrow> c \<in> set [CHR 0x09, CHR 0x0A, CHR 0x0B, CHR 0x0C, CHR 0x0D, CHR '' '']"

definition digit_of :: "char \<Rightarrow> nat option" where
  "digit_of c =
     (let n = (of_char c :: nat) in if 48 \<le> n \<and> n \<le> 57 then Some (n - 48) else None)"

definition is_digit :: "char \<Rightarrow> bool" where
  "is_digit c \<longleftrightarrow> digit_of c \<noteq> None"

fun digits_value :: "nat \<Rightarrow> string \<Rightarrow> nat" where
  "digits_value acc [] = acc"
| "digits_value acc (c # cs) =
     digits_value (10 * acc + (case digit_of c of Some d \<Rightarrow> d | None \<Rightarrow> 0)) cs"

fun split_sign :: "string \<Rightarrow> int \<times> string" where
  "split_sign [] = (1, [])"
| "split_sign (c # cs) =
     (if c = CHR ''-'' then (- 1, cs) else if c = CHR ''+'' then (1, cs) else (1, c # cs))"

definition parseInt :: "string \<Rightarrow> number" where
  "parseInt s =
     (let (sign, rest) = split_sign (dropWhile is_space s);
          z = takeWhile is_digit rest
      in if z = [] then NaN else Fin (of_int (sign * int (digits_value 0 z))))"

subsection \<open>Objects\<close>

text \<open>
  A JavaScript value as it is handed to \<^verbatim>\<open>res.json\<close> or stored in a document. An object
  is its list of properties in insertion order; a property that is missing reads as
  \<^verbatim>\<open>undefined\<close>, which is \<open>None\<close> here.
\<close>

datatype json =
    JNull
  | JBool bool
  | JNum number
  | JStr string
  | JArr "json list"
  | JObj "(string \<times> json) list"

type_synonym doc = "(string \<times> json) list"

definition get_prop :: "doc \<Rightarrow> string \<Rightarrow> json option" where
  "get_prop d k = map_of d k"

text \<open>Assignment \<^verbatim>\<open>d.k = v\<close>: an existing property keeps its place, a new one is added last.\<close>

fun set_prop :: "doc \<Rightarrow> string \<Rightarrow> json \<Rightarrow> doc" where
  "set_prop [] k v = [(k, v)]"
| "set_prop ((k', v') # ps) k v =
     (if k' = k then (k, v) # ps else (k', v') # set_prop ps k v)"

text \<open>The conversion to boolean behind \<^verbatim>\<open>!x\<close>, \<^verbatim>\<open>x || y\<close> and \<^verbatim>\<open>if (x)\<close>.\<close>

fun truthy :: "json option \<Rightarrow> bool" where
  "truthy None = False"
| "truthy (Some JNull) = False"
| "truthy (Some (JBool b)) = b"
| "truthy (Some (JNum n)) = (n \<noteq> NaN \<and> n \<noteq> Fin 0)"
| "truthy (Some (JStr s)) = (s \<noteq> [])"
| "truthy (Some (JArr xs)) = True"
| "truthy (Some (JObj ps)) = True"

text \<open>\<^verbatim>\<open>s || d\<close> for a query parameter \<open>s\<close> that is a string or missing.\<close>

definition or_else :: "string option \<Rightarrow> string \<Rightarrow> string" where
  "or_else s d = (case s of None \<Rightarrow> d | Some x \<Rightarrow> if x = [] then d else x)"

section \<open>Requests, responses and the persistence layer\<close>

text \<open>
  The part of an Express request the handlers read: the query parameters \<^verbatim>\<open>page\<close>,
  \<^verbatim>\<open>limit\<close> and \<^verbatim>\<open>q\<close> (each a string or missing), the path parameter \<^verbatim>\<open>id\<close>, the parsed
  body, and the failures that the validation middleware recorded for this request
  (what \<^verbatim>\<open>validationResult(req).array()\<close> returns).
\<close>

record request =
  query_page :: "string option"
  query_limit :: "string option"
  query_q :: "string option"
  params_id :: string
  body :: json
  validation_errors :: "json list"

text \<open>
  What a rejected promise carries: a malformed identifier or value, a document that
  fails the schema, or a database that cannot be reached.
\<close>

datatype error = CastError | ValidationError | ConnectionError

text \<open>
  What a handler leaves behind: one response, as a status code and the value given to
  \<^verbatim>\<open>res.json\<close>, or a call of \<^verbatim>\<open>next\<close> with an error and nothing sent.
\<close>

datatype outcome = Responded nat json | Forwarded error

text \<open>
  The query filter built by \<^verbatim>\<open>getAll\<close>: the empty filter, or
  \<^verbatim>\<open>{ $text: { $search: q } }\<close>.
\<close>

datatype query_filter = NoFilter | TextSearch string

text \<open>
  The handlers are produced from a Mongoose model, which is a parameter of the factory.
  The operations the controller calls are the fields of this record, over a state
  \<open>'db\<close> of the database. Each returns \<open>Inl\<close> when its promise rejects (or the call
  throws), and the operations that write return the database they leave.
  \<^item> \<open>construct\<close>: \<^verbatim>\<open>new Model(payload)\<close>
  \<^item> \<open>save_doc\<close>: \<^verbatim>\<open>doc.save()\<close>
  \<^item> \<open>countDocuments\<close>: \<^verbatim>\<open>Model.countDocuments(filter)\<close>
  \<^item> \<open>find_lean\<close>: \<^verbatim>\<open>Model.find(filter).skip(skip).limit(limit).lean()\<close>
  \<^item> \<open>findById\<close>: \<^verbatim>\<open>Model.findById(id)\<close> (with or without \<^verbatim>\<open>.lean()\<close>: a document
    and its plain object are the same property list here)
  \<^item> \<open>findByIdAndUpdate\<close>: \<^verbatim>\<open>Model.findByIdAndUpdate(id, payload, { new: true, runValidators: true }).lean()\<close>
  \<^item> \<open>findByIdAndDelete\<close>: \<^verbatim>\<open>Model.findByIdAndDelete(id).lean()\<close>
  \<^item> \<open>count_settles_first\<close>: which of the two promises of \<^verbatim>\<open>getAll\<close> rejects first
    when both reject.
\<close>

record 'db model =
  construct :: "json \<Rightarrow> 'db \<Rightarrow> error + doc"
  save_doc :: "doc \<Rightarrow> 'db \<Rightarrow> (error + unit) \<times> 'db"
  countDocuments :: "query_filter \<Rightarrow> 'db \<Rightarrow> error + int"
  find_lean :: "query_filter \<Rightarrow> number \<Rightarrow> number \<Rightarrow> 'db \<Rightarrow> error + doc list"
  findById :: "string \<Rightarrow> 'db \<Rightarrow> error + doc option"
  findByIdAndUpdate :: "string \<Rightarrow> json \<Rightarrow> 'db \<Rightarrow> (error + doc option) \<times> 'db"
  findByIdAndDelete :: "string \<Rightarrow> 'db \<Rightarrow> (error + doc option) \<times> 'db"
  count_settles_first :: bool

section \<open>The controller\<close>

text \<open>
  \<^verbatim>\<open>asyncHandler(fn)\<close> runs \<open>fn\<close> and passes a rejection to \<^verbatim>\<open>next\<close>. Every handler
  body ends at the statement that sends its response, so a body either throws, with
  nothing sent, or sends one response.
\<close>

definition asyncHandler ::
  "(request \<Rightarrow> 'db \<Rightarrow> (error + nat \<times> json) \<times> 'db) \<Rightarrow> request \<Rightarrow> 'db \<Rightarrow> outcome \<times> 'db" where
  "asyncHandler fn req db =
     (case fn req db of
        (Inl e, db') \<Rightarrow> (Forwarded e, db')
      | (Inr (status, b), db') \<Rightarrow> (Responded status b, db'))"

definition not_found :: json where
  "not_found = JObj [(''success'', JBool False), (''message'', JStr ''Not found'')]"

definition success_data :: "json \<Rightarrow> json" where
  "success_data d = JObj [(''success'', JBool True), (''data'', d)]"

subsection \<open>create\<close>

definition create_fn :: "'db model \<Rightarrow> request \<Rightarrow> 'db \<Rightarrow> (error + nat \<times> json) \<times> 'db" where
  "create_fn M req db =
     (let errors = validation_errors req in
      if errors \<noteq> [] then (Inr (400, JObj [(''errors'', JArr errors)]), db)
      else
        (let payload = body req in
         case construct M payload db of
           Inl e \<Rightarrow> (Inl e, db)
         | Inr d \<Rightarrow>
             (case save_doc M d db of
                (Inl e, db') \<Rightarrow> (Inl e, db')
              | (Inr u, db') \<Rightarrow> (Inr (201, success_data (JObj d)), db'))))"

definition create :: "'db model \<Rightarrow> request \<Rightarrow> 'db \<Rightarrow> outcome \<times> 'db" where
  "create M = asyncHandler (create_fn M)"

subsection \<open>getAll\<close>

definition page_of :: "request \<Rightarrow> number" where
  "page_of req = js_max (Fin 1) (parseInt (or_else (query_page req) ''1''))"

definition limit_of :: "request \<Rightarrow> number" where
  "limit_of req = js_min (Fin 100) (parseInt (or_else (query_limit req) ''25''))"

definition skip_of :: "request \<Rightarrow> number" where
  "skip_of req = js_mul (js_sub (page_of req) (Fin 1)) (limit_of req)"

definition filter_of :: "request \<Rightarrow> query_filter" where
  "filter_of req =
     (case query_q req of
        None \<Rightarrow> NoFilter
      | Some q \<Rightarrow> if q \<noteq> [] then TextSearch q else NoFilter)"

definition pages_of :: "number \<Rightarrow> number \<Rightarrow> number" where
  "pages_of tot lmt = js_ceil (js_div tot lmt)"

text \<open>
  \<^verbatim>\<open>Promise.all\<close> of two promises that have both been started: it rejects with the
  rejection that comes first.
\<close>

definition promise_all :: "bool \<Rightarrow> error + 'a \<Rightarrow> error + 'b \<Rightarrow> error + 'a \<times> 'b" where
  "promise_all left_first a b =
     (case (a, b) of
        (Inr x, Inr y) \<Rightarrow> Inr (x, y)
      | (Inl e, Inr y) \<Rightarrow> Inl e
      | (Inr x, Inl e) \<Rightarrow> Inl e
      | (Inl e1, Inl e2) \<Rightarrow> Inl (if left_first then e1 else e2))"

definition list_body :: "number \<Rightarrow> number \<Rightarrow> number \<Rightarrow> doc list \<Rightarrow> json" where
  "list_body page lmt tot items =
     JObj [(''success'', JBool True),
           (''meta'', JObj [(''page'', JNum page), (''limit'', JNum lmt),
                            (''total'', JNum tot), (''pages'', JNum (pages_of tot lmt))]),
           (''data'', JArr (map JObj items))]"

definition getAll_fn :: "'db model \<Rightarrow> request \<Rightarrow> 'db \<Rightarrow> (error + nat \<times> json) \<times> 'db" where
  "getAll_fn M req db =
     (let page = page_of req;
          limit = limit_of req;
          skip = js_mul (js_sub page (Fin 1)) limit;
          filter = filter_of req
      in case promise_all (count_settles_first M)
                (countDocuments M filter db) (find_lean M filter skip limit db) of
           Inl e \<Rightarrow> (Inl e, db)
         | Inr (tot, items) \<Rightarrow>
             (Inr (200, list_body page limit (Fin (of_int tot)) items), db))"

definition getAll :: "'db model \<Rightarrow> request \<Rightarrow> 'db \<Rightarrow> outcome \<times> 'db" where
  "getAll M = asyncHandler (getAll_fn M)"

subsection \<open>getById, update, remove, toggleFlag\<close>

definition getById_fn :: "'db model \<Rightarrow> request \<Rightarrow> 'db \<Rightarrow> (error + nat \<times> json) \<times> 'db" where
  "getById_fn M req db =
     (let id = params_id req in
      case findById M id db of
        Inl e \<Rightarrow> (Inl e, db)
      | Inr None \<Rightarrow> (Inr (404, not_found), db)
      | Inr (Some d) \<Rightarrow> (Inr (200, success_data (JObj d)), db))"

definition getById :: "'db model \<Rightarrow> request \<Rightarrow> 'db \<Rightarrow> outcome \<times> 'db" where
  "getById M = asyncHandler (getById_fn M)"

definition update_fn :: "'db model \<Rightarrow> request \<Rightarrow> 'db \<Rightarrow> (error + nat \<times> json) \<times> 'db" where
  "update_fn M req db =
     (let id = params_id req;
          payload = body req
      in case findByIdAndUpdate M id payload db of
           (Inl e, db') \<Rightarrow> (Inl e, db')
         | (Inr None, db') \<Rightarrow> (Inr (404, not_found), db')
         | (Inr (Some d), db') \<Rightarrow> (Inr (200, success_data (JObj d)), db'))"

definition update :: "'db model \<Rightarrow> request \<Rightarrow> 'db \<Rightarrow> outcome \<times> 'db" where
  "update M = asyncHandler (update_fn M)"

definition deleted :: json where
  "deleted = JObj [(''success'', JBool True), (''message'', JStr ''Deleted'')]"

definition remove_fn :: "'db model \<Rightarrow> request \<Rightarrow> 'db \<Rightarrow> (error + nat \<times> json) \<times> 'db" where
  "remove_fn M req db =
     (let id = params_id req in
      case findByIdAndDelete M id db of
        (Inl e, db') \<Rightarrow> (Inl e, db')
      | (Inr None, db') \<Rightarrow> (Inr (404, not_found), db')
      | (Inr (Some d), db') \<Rightarrow> (Inr (200, deleted), db'))"

definition remove :: "'db model \<Rightarrow> request \<Rightarrow> 'db \<Rightarrow> outcome \<times> 'db" where
  "remove M = asyncHandler (remove_fn M)"

text \<open>
  \<^verbatim>\<open>doc.active = !doc.active\<close> assigns through the model's \<^verbatim>\<open>active\<close> path, which the
  data model of the specification declares.
\<close>

definition toggle_active :: "doc \<Rightarrow> doc" where
  "toggle_active d = set_prop d ''active'' (JBool (\<not> truthy (get_prop d ''active'')))"

definition toggleFlag_fn :: "'db model \<Rightarrow> request \<Rightarrow> 'db \<Rightarrow> (error + nat \<times> json) \<times> 'db" where
  "toggleFlag_fn M req db =
     (let id = params_id req in
      case findById M id db of
        Inl e \<Rightarrow> (Inl e, db)
      | Inr None \<Rightarrow> (Inr (404, not_found), db)
      | Inr (Some d) \<Rightarrow>
          (let d' = toggle_active d in
           case save_doc M d' db of
             (Inl e, db') \<Rightarrow> (Inl e, db')
           | (Inr u, db') \<Rightarrow> (Inr (200, success_data (JObj d')), db')))"

definition toggleFlag :: "'db model \<Rightarrow> request \<Rightarrow> 'db \<Rightarrow> outcome \<times> 'db" where
  "toggleFlag M = asyncHandler (toggleFlag_fn M)"

section \<open>What the persistence layer is assumed to do\<close>

text \<open>
  The model is a parameter of the factory, so what it does is an assumption, stated
  against a view of the database as the stored collection: a partial map from
  identifiers to documents. A document carries its identifier in \<^verbatim>\<open>_id\<close>.
\<close>

definition key_of :: "doc \<Rightarrow> string option" where
  "key_of d = (case get_prop d ''_id'' of Some (JStr i) \<Rightarrow> Some i | _ \<Rightarrow> None)"

text \<open>
  The contract speaks only about calls that complete:
  \<^item> \<open>findById\<close> returns the stored document, or null when there is none;
  \<^item> \<open>findByIdAndUpdate\<close> on an identifier that is not stored returns null and writes
    nothing (the handler passes no \<^verbatim>\<open>upsert\<close> option);
  \<^item> \<open>findByIdAndDelete\<close> returns the stored document, or null, and afterwards the
    identifier is not stored;
  \<^item> \<open>save_doc\<close> stores the document under its identifier;
  \<^item> a stored document carries the identifier it is stored under, and a newly
    constructed document carries an identifier.
\<close>

definition store_contract :: "'db model \<Rightarrow> ('db \<Rightarrow> string \<Rightarrow> doc option) \<Rightarrow> bool" where
  "store_contract M view \<longleftrightarrow>
     (\<forall>i db r. findById M i db = Inr r \<longrightarrow> r = view db i) \<and>
     (\<forall>i p db r db'. findByIdAndUpdate M i p db = (Inr r, db') \<longrightarrow> view db i = None \<longrightarrow>
        r = None \<and> view db' = view db) \<and>
     (\<forall>i db r db'. findByIdAndDelete M i db = (Inr r, db') \<longrightarrow>
        r = view db i \<and> view db' = (view db)(i := None)) \<and>
     (\<forall>d db u db' i. save_doc M d db = (Inr u, db') \<longrightarrow> key_of d = Some i \<longrightarrow>
        view db' = (view db)(i \<mapsto> d)) \<and>
     (\<forall>db i d. view db i = Some d \<longrightarrow> key_of d = Some i) \<and>
     (\<forall>p db d. construct M p db = Inr d \<longrightarrow> key_of d \<noteq> None)"

subsection \<open>A collection in memory\<close>

text \<open>
  A reference implementation of the model's operations over a list of documents. It
  shows that the contract can be met, and it is what the examples run on. The argument
  \<open>fresh\<close> is the identifier the next constructed document receives.
\<close>

type_synonym mem = "doc list"

definition mem_view :: "mem \<Rightarrow> string \<Rightarrow> doc option" where
  "mem_view db i = List.find (\<lambda>d. key_of d = Some i) db"

definition mem_without :: "string \<Rightarrow> mem \<Rightarrow> mem" where
  "mem_without i db = filter (\<lambda>d. key_of d \<noteq> Some i) db"

fun mem_matches :: "query_filter \<Rightarrow> doc \<Rightarrow> bool" where
  "mem_matches NoFilter d = True"
| "mem_matches (TextSearch q) d = (JStr q \<in> snd ` set d)"

definition mem_window :: "number \<Rightarrow> number \<Rightarrow> doc list \<Rightarrow> error + doc list" where
  "mem_window skip limit ds =
     (case (skip, limit) of
        (Fin s, Fin l) \<Rightarrow>
          if 0 \<le> s \<and> 0 \<le> l \<and> s = of_int \<lfloor>s\<rfloor> \<and> l = of_int \<lfloor>l\<rfloor>
          then Inr (if l = 0 then drop (nat \<lfloor>s\<rfloor>) ds else take (nat \<lfloor>l\<rfloor>) (drop (nat \<lfloor>s\<rfloor>) ds))
          else Inl CastError
      | _ \<Rightarrow> Inl CastError)"

definition mem_merge :: "doc \<Rightarrow> doc \<Rightarrow> doc" where
  "mem_merge d ps = foldl (\<lambda>acc (k, v). if k = ''_id'' then acc else set_prop acc k v) d ps"

definition mem_model :: "string \<Rightarrow> mem model" where
  "mem_model fresh =
     \<lparr> construct = (\<lambda>p db. case p of
          JObj ps \<Rightarrow> Inr ((''_id'', JStr fresh) # filter (\<lambda>kv. fst kv \<noteq> ''_id'') ps)
        | _ \<Rightarrow> Inl ValidationError),
       save_doc = (\<lambda>d db. case key_of d of
          None \<Rightarrow> (Inl ValidationError, db)
        | Some i \<Rightarrow> (Inr (), d # mem_without i db)),
       countDocuments = (\<lambda>f db. Inr (int (length (filter (mem_matches f) db)))),
       find_lean = (\<lambda>f skip limit db. mem_window skip limit (filter (mem_matches f) db)),
       findById = (\<lambda>i db. Inr (mem_view db i)),
       findByIdAndUpdate = (\<lambda>i p db. case mem_view db i of
          None \<Rightarrow> (Inr None, db)
        | Some d \<Rightarrow> (case p of
            JObj ps \<Rightarrow> (Inr (Some (mem_merge d ps)), mem_merge d ps # mem_without i db)
          | _ \<Rightarrow> (Inl CastError, db))),
       findByIdAndDelete = (\<lambda>i db. (Inr (mem_view db i), mem_without i db)),
       count_settles_first = True \<rparr>"

text \<open>A model whose database cannot be reached: every call rejects.\<close>

definition down_model :: "unit model" where
  "down_model =
     \<lparr> construct = (\<lambda>p db. Inl ConnectionError),
       save_doc = (\<lambda>d db. (Inl ConnectionError, db)),
       countDocuments = (\<lambda>f db. Inl ConnectionError),
       find_lean = (\<lambda>f skip limit db. Inl ConnectionError),
       findById = (\<lambda>i db. Inl ConnectionError),
       findByIdAndUpdate = (\<lambda>i p db. (Inl ConnectionError, db)),
       findByIdAndDelete = (\<lambda>i db. (Inl ConnectionError, db)),
       count_settles_first = True \<rparr>"

subsection \<open>Reading values back\<close>

definition in_range :: "int \<Rightarrow> int \<Rightarrow> number \<Rightarrow> bool" where
  "in_range lo hi x = (case x of Fin r \<Rightarrow> of_int lo \<le> r \<and> r \<le> of_int hi | _ \<Rightarrow> False)"

definition json_get :: "json \<Rightarrow> string \<Rightarrow> json option" where
  "json_get j k = (case j of JObj ps \<Rightarrow> map_of ps k | _ \<Rightarrow> None)"

definition meta_pages :: "json \<Rightarrow> json option" where
  "meta_pages b = (case json_get b ''meta'' of Some m \<Rightarrow> json_get m ''pages'' | None \<Rightarrow> None)"

text \<open>
  The decimal numeral of an integer, as a client writes it in a query string:
  \<^verbatim>\<open>-30\<close>, \<^verbatim>\<open>0\<close>, \<^verbatim>\<open>1234\<close>.
\<close>

definition digit_char :: "nat \<Rightarrow> char" where
  "digit_char d = char_of (48 + d)"

fun digits :: "nat \<Rightarrow> string" where
  "digits n = (if n < 10 then [digit_char n] else digits (n div 10) @ [digit_char (n mod 10)])"

declare digits.simps [simp del]

definition decimal :: "int \<Rightarrow> string" where
  "decimal n = (if n < 0 then CHR ''-'' # digits (nat (- n)) else digits (nat n))"

definition query :: "string option \<Rightarrow> string option \<Rightarrow> request" where
  "query p l = \<lparr> query_page = p, query_limit = l, query_q = None, params_id = [],
                 body = JNull, validation_errors = [] \<rparr>"

definition by_id :: "string \<Rightarrow> request" where
  "by_id i = \<lparr> query_page = None, query_limit = None, query_q = None, params_id = i,
               body = JObj [], validation_errors = [] \<rparr>"

definition create_req :: "json \<Rightarrow> json list \<Rightarrow> request" where
  "create_req b errs = \<lparr> query_page = None, query_limit = None, query_q = None, params_id = [],
                          body = b, validation_errors = errs \<rparr>"

text \<open>The collection in memory with a \<^verbatim>\<open>save\<close> that rejects, and with a count that rejects.\<close>

definition no_write_model :: "mem model" where
  "no_write_model = (mem_model ''n'') \<lparr> save_doc := (\<lambda>d db. (Inl ConnectionError, db)) \<rparr>"

definition no_count_model :: "mem model" where
  "no_count_model = (mem_model ''n'') \<lparr> countDocuments := (\<lambda>f db. Inl ConnectionError) \<rparr>"

text \<open>Three stored documents: one active, one without the flag, one inactive.\<close>

definition sample_db :: mem where
  "sample_db =
     [[(''_id'', JStr ''a''), (''active'', JBool True)],
      [(''_id'', JStr ''b''), (''name'', JStr ''B'')],
      [(''_id'', JStr ''c''), (''active'', JBool False)]]"

section \<open>Pagination parameters\<close>

lemmas parse_defs = or_else_def parseInt_def is_space_def is_digit_def digit_of_def

lemma parseInt_nil: "parseInt [] = NaN"
  by (simp add: parseInt_def)

lemma parseInt_1: "parseInt ''1'' = Fin 1"
  by (simp add: parseInt_def is_space_def is_digit_def digit_of_def)

lemma parseInt_25: "parseInt ''25'' = Fin 25"
  by (simp add: parseInt_def is_space_def is_digit_def digit_of_def)

text \<open>A parameter that parses is not the empty string, so \<^verbatim>\<open>||\<close> keeps it.\<close>

lemma or_else_parsed: "parseInt s = Fin r \<Longrightarrow> or_else (Some s) d = s"
  by (cases "s = []") (simp_all add: or_else_def parseInt_nil)

lemma parseInt_cases: "parseInt s = NaN \<or> (\<exists>k. parseInt s = Fin (of_int k))"
proof -
  obtain sg rest where sp: "split_sign (dropWhile is_space s) = (sg, rest)"
    by (cases "split_sign (dropWhile is_space s)")
  show ?thesis
  proof (cases "takeWhile is_digit rest = []")
    case True
    with sp show ?thesis by (simp add: parseInt_def)
  next
    case False
    with sp have "parseInt s = Fin (of_int (sg * int (digits_value 0 (takeWhile is_digit rest))))"
      by (simp add: parseInt_def)
    then show ?thesis by blast
  qed
qed

text \<open>
  Every integer is the value of a parameter: \<^verbatim>\<open>parseInt\<close> reads the decimal numeral of
  \<open>n\<close> as \<open>n\<close>.
\<close>

lemma digit_of_digit_char: "d < 10 \<Longrightarrow> digit_of (digit_char d) = Some d"
  by (simp add: digit_of_def digit_char_def)

lemma is_digit_digit_char: "d < 10 \<Longrightarrow> is_digit (digit_char d)"
  by (simp add: is_digit_def digit_of_digit_char)

lemma of_char_digit_char: "d < 10 \<Longrightarrow> of_char (digit_char d) = 48 + d"
  by (simp add: digit_char_def)

lemma digit_char_neq:
  assumes "d < 10" and "of_char c < (48 :: nat)"
  shows "digit_char d \<noteq> c"
proof
  assume "digit_char d = c"
  then have "of_char c = 48 + d"
    using of_char_digit_char [OF assms(1)] by simp
  with assms(2) show False by simp
qed

lemma not_space_digit_char: "d < 10 \<Longrightarrow> \<not> is_space (digit_char d)"
  by (simp add: is_space_def digit_char_neq)

lemma digits_all_digit: "\<forall>c \<in> set (digits n). is_digit c"
  by (induction n rule: digits.induct) (subst digits.simps, auto simp: is_digit_digit_char)

lemma digits_value_snoc:
  "digits_value acc (cs @ [c]) = 10 * digits_value acc cs + (case digit_of c of Some d \<Rightarrow> d | None \<Rightarrow> 0)"
  by (induction cs arbitrary: acc) simp_all

lemma digits_value_digits: "digits_value 0 (digits n) = n"
  by (induction n rule: digits.induct)
     (subst digits.simps, auto simp: digits_value_snoc digit_of_digit_char)

lemma digits_nonempty: "digits n \<noteq> []"
  by (subst digits.simps) simp

lemma hd_digits: "\<exists>d cs. d < 10 \<and> digits n = digit_char d # cs"
proof (induction n rule: digits.induct)
  case (1 n)
  show ?case
  proof (cases "n < 10")
    case True
    then have "digits n = digit_char n # []"
      by (subst digits.simps) simp
    with True show ?thesis by blast
  next
    case False
    with 1 obtain d cs where d: "d < 10" "digits (n div 10) = digit_char d # cs"
      by blast
    have "digits n = digits (n div 10) @ [digit_char (n mod 10)]"
      using False by (subst digits.simps) simp
    with d have "digits n = digit_char d # (cs @ [digit_char (n mod 10)])"
      by simp
    with d(1) show ?thesis by blast
  qed
qed

lemma takeWhile_digits: "takeWhile is_digit (digits n) = digits n"
  using digits_all_digit by (simp add: takeWhile_eq_all_conv)

lemma parseInt_digits: "parseInt (digits n) = Fin (of_int (int n))"
proof -
  obtain d cs where d: "d < 10" "digits n = digit_char d # cs"
    using hd_digits by blast
  have ns: "\<not> is_space (digit_char d)" "digit_char d \<noteq> CHR ''-''" "digit_char d \<noteq> CHR ''+''"
    using d(1) by (simp_all add: not_space_digit_char digit_char_neq)
  have "dropWhile is_space (digits n) = digits n"
    using d ns by simp
  moreover have "split_sign (digits n) = (1, digits n)"
    using d ns by simp
  ultimately show ?thesis
    by (simp add: parseInt_def Let_def takeWhile_digits digits_nonempty digits_value_digits)
qed

lemma parseInt_decimal: "parseInt (decimal n) = Fin (of_int n)"
proof (cases "n < 0")
  case False
  then show ?thesis by (simp add: decimal_def parseInt_digits)
next
  case True
  have "\<not> is_space CHR ''-''" by (simp add: is_space_def)
  then have "dropWhile is_space (decimal n) = CHR ''-'' # digits (nat (- n))"
    using True by (simp add: decimal_def)
  then show ?thesis
    using True by (simp add: parseInt_def Let_def takeWhile_digits digits_nonempty digits_value_digits)
qed

text \<open>
  C1: the effective limit of a list request should lie in \<open>[1,100]\<close>, a limit below 1
  being raised to 1. Line 33 floors the page with \<^verbatim>\<open>Math.max(1, _)\<close>, but line 34 only
  caps the limit with \<^verbatim>\<open>Math.min(100, _)\<close>. At \<^verbatim>\<open>?limit=0\<close> the effective limit is 0: it
  is outside \<open>[1,100]\<close>, the query runs with \<^verbatim>\<open>.limit(0)\<close>, which on the collection in
  memory returns all three documents, and \<^verbatim>\<open>meta.pages\<close> is \<^verbatim>\<open>3 / 0\<close>, infinite.
\<close>

theorem limit_zero_unclamped:
  "limit_of (query None (Some ''0'')) = Fin 0 \<and>
   \<not> in_range 1 100 (limit_of (query None (Some ''0''))) \<and>
   getAll (mem_model ''n'') (query None (Some ''0'')) sample_db =
     (Responded 200 (list_body (Fin 1) (Fin 0) (Fin 3) sample_db), sample_db) \<and>
   meta_pages (list_body (Fin 1) (Fin 0) (Fin 3) sample_db) = Some (JNum PosInf)"
proof -
  let ?q = "query None (Some ''0'')"
  have l: "limit_of ?q = Fin 0"
    by (simp add: limit_of_def query_def parse_defs)
  have p: "page_of ?q = Fin 1"
    by (simp add: page_of_def query_def parse_defs)
  have f: "filter_of ?q = NoFilter"
    by (simp add: filter_of_def query_def)
  have r: "\<not> in_range 1 100 (limit_of ?q)"
    by (simp add: l in_range_def)
  have c: "countDocuments (mem_model ''n'') NoFilter sample_db = Inr 3"
    by (simp add: mem_model_def sample_db_def)
  have w: "find_lean (mem_model ''n'') NoFilter (Fin 0) (Fin 0) sample_db = Inr sample_db"
    by (simp add: mem_model_def mem_window_def)
  have g: "getAll (mem_model ''n'') ?q sample_db =
      (Responded 200 (list_body (Fin 1) (Fin 0) (Fin 3) sample_db), sample_db)"
    by (simp add: getAll_def asyncHandler_def getAll_fn_def promise_all_def l p f c w)
  have m: "meta_pages (list_body (Fin 1) (Fin 0) (Fin 3) sample_db) = Some (JNum PosInf)"
    by (simp add: meta_pages_def list_body_def json_get_def pages_of_def js_ceil_def
        inf_times_def)
  from l r g m show ?thesis by simp
qed

text \<open>
  C2: when the page parameter is an integer below 1 the effective page is 1, and when
  the limit parameter is an integer above 100 the effective limit is 100.
\<close>

theorem getAll_clamps:
  "(query_page req = Some s \<and> parseInt s = Fin (of_int n) \<and> n < 1 \<longrightarrow> page_of req = Fin 1) \<and>
   (query_limit req = Some t \<and> parseInt t = Fin (of_int m) \<and> 100 < m \<longrightarrow>
      limit_of req = Fin 100)"
proof (intro conjI impI)
  assume h: "query_page req = Some s \<and> parseInt s = Fin (of_int n) \<and> n < 1"
  then have "or_else (query_page req) ''1'' = s"
    by (simp add: or_else_parsed)
  moreover have "max 1 (rat_of_int n) = 1"
    using h by (simp add: max_def)
  ultimately show "page_of req = Fin 1"
    using h by (simp add: page_of_def)
next
  assume h: "query_limit req = Some t \<and> parseInt t = Fin (of_int m) \<and> 100 < m"
  then have "or_else (query_limit req) ''25'' = t"
    by (simp add: or_else_parsed)
  moreover have "min 100 (rat_of_int m) = 100"
    using h by (simp add: min_def)
  ultimately show "limit_of req = Fin 100"
    using h by (simp add: limit_of_def)
qed

theorem getAll_clamps_witness:
  "query_page (query (Some ''-3'') (Some ''250'')) = Some ''-3'' \<and>
   parseInt ''-3'' = Fin (of_int (- 3)) \<and> (- 3 :: int) < 1 \<and>
   page_of (query (Some ''-3'') (Some ''250'')) = Fin 1 \<and>
   query_limit (query (Some ''-3'') (Some ''250'')) = Some ''250'' \<and>
   parseInt ''250'' = Fin (of_int 250) \<and> (100 :: int) < 250 \<and>
   limit_of (query (Some ''-3'') (Some ''250'')) = Fin 100"
  using getAll_clamps [of "query (Some ''-3'') (Some ''250'')" "''-3''" "- 3" "''250''" 250]
  by (simp add: query_def parseInt_def is_space_def is_digit_def digit_of_def)

text \<open>
  C9: a list request without a page parameter has the effective page 1, and one
  without a limit parameter has the effective limit 25.
\<close>

theorem getAll_defaults:
  "(query_page req = None \<longrightarrow> page_of req = Fin 1) \<and>
   (query_limit req = None \<longrightarrow> limit_of req = Fin 25)"
  by (simp add: page_of_def limit_of_def or_else_def parseInt_1 parseInt_25)

theorem getAll_defaults_witness:
  "query_page (query None None) = None \<and> page_of (query None None) = Fin 1 \<and>
   query_limit (query None None) = None \<and> limit_of (query None None) = Fin 25"
  using getAll_defaults [of "query None None"] by (simp add: query_def)

section \<open>The page count\<close>

lemma ceil_div_bounds:
  fixes t l :: int
  assumes "0 < l"
  shows "(\<lceil>rat_of_int t / rat_of_int l\<rceil> - 1) * l < t \<and>
         t \<le> \<lceil>rat_of_int t / rat_of_int l\<rceil> * l"
proof -
  let ?p = "\<lceil>rat_of_int t / rat_of_int l\<rceil>"
  have pos: "0 < rat_of_int l"
    using assms by simp
  have "rat_of_int t / rat_of_int l \<le> of_int ?p"
    by (rule le_of_int_ceiling)
  then have "rat_of_int t \<le> of_int ?p * rat_of_int l"
    by (simp only: pos_divide_le_eq [OF pos])
  then have "rat_of_int t \<le> rat_of_int (?p * l)"
    by simp
  then have hi: "t \<le> ?p * l"
    by (simp only: of_int_le_iff)
  have "of_int ?p - 1 < rat_of_int t / rat_of_int l"
    by (rule ceiling_correct [THEN conjunct1])
  then have "(of_int ?p - 1) * rat_of_int l < rat_of_int t"
    by (simp only: pos_less_divide_eq [OF pos])
  then have "rat_of_int ((?p - 1) * l) < rat_of_int t"
    by simp
  then have lo: "(?p - 1) * l < t"
    by (simp only: of_int_less_iff)
  from lo hi show ?thesis by simp
qed

text \<open>When both promises of \<^verbatim>\<open>getAll\<close> resolve, the handler answers with status 200.\<close>

lemma getAll_responds:
  assumes "countDocuments M (filter_of req) db = Inr tot"
      and "find_lean M (filter_of req) (skip_of req) (limit_of req) db = Inr items"
  shows "getAll M req db =
           (Responded 200 (list_body (page_of req) (limit_of req) (Fin (of_int tot)) items), db)"
  using assms
  by (simp add: getAll_def asyncHandler_def getAll_fn_def promise_all_def skip_of_def)

lemma meta_pages_list_body:
  "meta_pages (list_body page lmt tot items) = Some (JNum (pages_of tot lmt))"
  by (simp add: meta_pages_def list_body_def json_get_def)

text \<open>
  C3: for a total \<open>tot \<ge> 0\<close> and an effective limit \<open>l > 0\<close>, \<^verbatim>\<open>meta.pages\<close> of the list
  response is the ceiling of \<open>tot / l\<close>, the integer \<open>p\<close> with \<open>(p - 1) * l < tot \<le> p * l\<close>.
\<close>

theorem getAll_pages:
  assumes "countDocuments M (filter_of req) db = Inr tot"
      and "find_lean M (filter_of req) (skip_of req) (limit_of req) db = Inr items"
      and "0 \<le> tot" and "limit_of req = Fin (of_int l)" and "0 < l"
  shows "getAll M req db =
           (Responded 200 (list_body (page_of req) (Fin (of_int l)) (Fin (of_int tot)) items), db) \<and>
         meta_pages (list_body (page_of req) (Fin (of_int l)) (Fin (of_int tot)) items) =
           Some (JNum (Fin (of_int \<lceil>rat_of_int tot / rat_of_int l\<rceil>))) \<and>
         (\<lceil>rat_of_int tot / rat_of_int l\<rceil> - 1) * l < tot \<and>
         tot \<le> \<lceil>rat_of_int tot / rat_of_int l\<rceil> * l"
proof -
  let ?b = "list_body (page_of req) (Fin (of_int l)) (Fin (of_int tot)) items"
  have "getAll M req db = (Responded 200 ?b, db)"
    using getAll_responds [OF assms(1,2)] assms(4) by simp
  moreover have "pages_of (Fin (of_int tot)) (Fin (of_int l)) =
      Fin (of_int \<lceil>rat_of_int tot / rat_of_int l\<rceil>)"
    using \<open>0 < l\<close> by (simp add: pages_of_def js_ceil_def)
  then have "meta_pages ?b = Some (JNum (Fin (of_int \<lceil>rat_of_int tot / rat_of_int l\<rceil>)))"
    by (simp add: meta_pages_list_body)
  ultimately show ?thesis
    using ceil_div_bounds [OF \<open>0 < l\<close>, of tot] by blast
qed

theorem getAll_pages_witness:
  "countDocuments (mem_model ''n'') (filter_of (query None (Some ''2''))) sample_db = Inr 3 \<and>
   find_lean (mem_model ''n'') (filter_of (query None (Some ''2'')))
     (skip_of (query None (Some ''2''))) (limit_of (query None (Some ''2''))) sample_db =
     Inr (take 2 sample_db) \<and>
   (0::int) \<le> 3 \<and> limit_of (query None (Some ''2'')) = Fin (of_int 2) \<and> (0::int) < 2 \<and>
   getAll (mem_model ''n'') (query None (Some ''2'')) sample_db =
     (Responded 200 (list_body (Fin 1) (Fin 2) (Fin 3) (take 2 sample_db)), sample_db) \<and>
   meta_pages (list_body (Fin 1) (Fin 2) (Fin 3) (take 2 sample_db)) = Some (JNum (Fin 2))"
proof -
  let ?q = "query None (Some ''2'')"
  have l: "limit_of ?q = Fin (of_int 2)"
    by (simp add: limit_of_def query_def parse_defs)
  have p: "page_of ?q = Fin 1"
    by (simp add: page_of_def query_def parse_defs)
  have s: "skip_of ?q = Fin 0"
    by (simp add: skip_of_def p l)
  have f: "filter_of ?q = NoFilter"
    by (simp add: filter_of_def query_def)
  have c: "countDocuments (mem_model ''n'') (filter_of ?q) sample_db = Inr 3"
    by (simp add: f mem_model_def sample_db_def)
  have w: "find_lean (mem_model ''n'') (filter_of ?q) (skip_of ?q) (limit_of ?q) sample_db =
      Inr (take 2 sample_db)"
    by (simp add: f s l mem_model_def mem_window_def sample_db_def)
  have "\<lceil>rat_of_int 3 / rat_of_int 2\<rceil> = 2"
    by (simp add: ceiling_unique)
  with getAll_pages [OF c w _ l] c w l p show ?thesis
    by simp
qed

section \<open>The collection in memory meets the contract\<close>

lemma get_set_prop: "get_prop (set_prop d k v) k' = (if k' = k then Some v else get_prop d k')"
  by (induction d k v rule: set_prop.induct) (auto simp: get_prop_def)

lemma key_of_set_prop: "k \<noteq> ''_id'' \<Longrightarrow> key_of (set_prop d k v) = key_of d"
  by (simp add: key_of_def get_set_prop)

lemma mem_view_key: "mem_view db i = Some d \<Longrightarrow> key_of d = Some i"
  by (auto simp: mem_view_def find_Some_iff)

lemma mem_view_cons:
  "mem_view (d # db) j = (if key_of d = Some j then Some d else mem_view db j)"
  by (simp add: mem_view_def)

lemma mem_view_without:
  "mem_view (mem_without i db) j = (if j = i then None else mem_view db j)"
  by (induction db) (auto simp: mem_view_def mem_without_def)

lemma mem_view_put:
  "key_of d = Some i \<Longrightarrow> mem_view (d # mem_without i db) = (mem_view db)(i \<mapsto> d)"
  by (auto simp: fun_eq_iff mem_view_cons mem_view_without)

lemma mem_view_delete: "mem_view (mem_without i db) = (mem_view db)(i := None)"
  by (auto simp: fun_eq_iff mem_view_without)

lemma mem_contract: "store_contract (mem_model fresh) mem_view"
  unfolding store_contract_def
proof (intro conjI allI impI)
  fix i db r
  assume "findById (mem_model fresh) i db = Inr r"
  then show "r = mem_view db i" by (auto simp: mem_model_def)
next
  fix i p db r db'
  assume "findByIdAndUpdate (mem_model fresh) i p db = (Inr r, db')" "mem_view db i = None"
  then show "r = None" "mem_view db' = mem_view db" by (auto simp: mem_model_def)
next
  fix i db r db'
  assume "findByIdAndDelete (mem_model fresh) i db = (Inr r, db')"
  then show "r = mem_view db i" "mem_view db' = (mem_view db)(i := None)"
    by (auto simp: mem_model_def mem_view_delete)
next
  fix d db u db' i
  assume "save_doc (mem_model fresh) d db = (Inr u, db')" "key_of d = Some i"
  then show "mem_view db' = (mem_view db)(i \<mapsto> d)"
    by (auto simp: mem_model_def mem_view_put)
next
  fix db i d
  assume "mem_view db i = Some d"
  then show "key_of d = Some i" by (rule mem_view_key)
next
  fix p db d
  assume "construct (mem_model fresh) p db = Inr d"
  then show "key_of d \<noteq> None"
    by (auto simp: mem_model_def key_of_def get_prop_def split: json.splits)
qed


section \<open>Consequences of the contract\<close>

lemma contract_findById:
  assumes "store_contract M view" and "findById M i db = Inr r"
  shows "r = view db i"
proof -
  from assms(1) have "\<forall>i db r. findById M i db = Inr r \<longrightarrow> r = view db i"
    unfolding store_contract_def by (elim conjE)
  with assms(2) show ?thesis by blast
qed

lemma contract_update_miss:
  assumes "store_contract M view" and "findByIdAndUpdate M i p db = (Inr r, db')"
      and "view db i = None"
  shows "r = None \<and> view db' = view db"
proof -
  from assms(1) have "\<forall>i p db r db'. findByIdAndUpdate M i p db = (Inr r, db') \<longrightarrow>
      view db i = None \<longrightarrow> r = None \<and> view db' = view db"
    unfolding store_contract_def by (elim conjE)
  with assms(2,3) show ?thesis by blast
qed

lemma contract_delete:
  assumes "store_contract M view" and "findByIdAndDelete M i db = (Inr r, db')"
  shows "r = view db i \<and> view db' = (view db)(i := None)"
proof -
  from assms(1) have "\<forall>i db r db'. findByIdAndDelete M i db = (Inr r, db') \<longrightarrow>
      r = view db i \<and> view db' = (view db)(i := None)"
    unfolding store_contract_def by (elim conjE)
  with assms(2) show ?thesis by blast
qed

lemma contract_save:
  assumes "store_contract M view" and "save_doc M d db = (Inr u, db')" and "key_of d = Some i"
  shows "view db' = (view db)(i \<mapsto> d)"
proof -
  from assms(1) have "\<forall>d db u db' i. save_doc M d db = (Inr u, db') \<longrightarrow> key_of d = Some i \<longrightarrow>
      view db' = (view db)(i \<mapsto> d)"
    unfolding store_contract_def by (elim conjE)
  with assms(2,3) show ?thesis by blast
qed

lemma contract_key:
  assumes "store_contract M view" and "view db i = Some d"
  shows "key_of d = Some i"
proof -
  from assms(1) have "\<forall>db i d. view db i = Some d \<longrightarrow> key_of d = Some i"
    unfolding store_contract_def by (elim conjE)
  with assms(2) show ?thesis by blast
qed

lemma contract_construct:
  assumes "store_contract M view" and "construct M p db = Inr d"
  shows "\<exists>i. key_of d = Some i"
proof -
  from assms(1) have "\<forall>p db d. construct M p db = Inr d \<longrightarrow> key_of d \<noteq> None"
    unfolding store_contract_def by (elim conjE)
  with assms(2) have "key_of d \<noteq> None" by blast
  then show ?thesis by (cases "key_of d") simp_all
qed


section \<open>Identifiers that are not stored\<close>

text \<open>
  C4: when the identifier of the request is not stored and the lookup completes,
  \<^verbatim>\<open>update\<close>, \<^verbatim>\<open>remove\<close> and \<^verbatim>\<open>toggleFlag\<close> each answer 404 with
  \<^verbatim>\<open>{success: false, message: "Not found"}\<close>, and the stored collection is as before.
\<close>

theorem not_found_leaves_store:
  assumes "store_contract M view" and "view db (params_id req) = None"
  shows "(\<forall>r db'. findByIdAndUpdate M (params_id req) (body req) db = (Inr r, db') \<longrightarrow>
            update M req db = (Responded 404 not_found, db') \<and> view db' = view db) \<and>
         (\<forall>r db'. findByIdAndDelete M (params_id req) db = (Inr r, db') \<longrightarrow>
            remove M req db = (Responded 404 not_found, db') \<and> view db' = view db) \<and>
         (\<forall>r. findById M (params_id req) db = Inr r \<longrightarrow>
            toggleFlag M req db = (Responded 404 not_found, db))"
proof (intro conjI allI impI)
  fix r db'
  assume u: "findByIdAndUpdate M (params_id req) (body req) db = (Inr r, db')"
  from contract_update_miss [OF assms(1) u assms(2)]
  have r: "r = None" and v: "view db' = view db" by simp_all
  show "update M req db = (Responded 404 not_found, db')"
    using u r by (simp add: update_def asyncHandler_def update_fn_def)
  show "view db' = view db" by (rule v)
next
  fix r db'
  assume u: "findByIdAndDelete M (params_id req) db = (Inr r, db')"
  from contract_delete [OF assms(1) u] assms(2)
  have r: "r = None" and v: "view db' = view db" by (simp_all add: fun_eq_iff)
  show "remove M req db = (Responded 404 not_found, db')"
    using u r by (simp add: remove_def asyncHandler_def remove_fn_def)
  show "view db' = view db" by (rule v)
next
  fix r
  assume u: "findById M (params_id req) db = Inr r"
  from contract_findById [OF assms(1) u] assms(2) have "r = None" by simp
  then show "toggleFlag M req db = (Responded 404 not_found, db)"
    using u by (simp add: toggleFlag_def asyncHandler_def toggleFlag_fn_def)
qed

theorem not_found_leaves_store_witness:
  "mem_view sample_db (params_id (by_id ''z'')) = None \<and>
   update (mem_model ''n'') (by_id ''z'') sample_db = (Responded 404 not_found, sample_db) \<and>
   remove (mem_model ''n'') (by_id ''z'') sample_db = (Responded 404 not_found, sample_db) \<and>
   toggleFlag (mem_model ''n'') (by_id ''z'') sample_db = (Responded 404 not_found, sample_db)"
proof -
  have v: "mem_view sample_db (params_id (by_id ''z'')) = None"
    by (simp add: mem_view_def sample_db_def by_id_def key_of_def get_prop_def)
  have u: "findByIdAndUpdate (mem_model ''n'') (params_id (by_id ''z'')) (body (by_id ''z'')) sample_db
      = (Inr None, sample_db)"
    using v by (simp add: mem_model_def)
  have d: "findByIdAndDelete (mem_model ''n'') (params_id (by_id ''z'')) sample_db
      = (Inr None, sample_db)"
    using v by (simp add: mem_model_def mem_without_def sample_db_def by_id_def key_of_def get_prop_def)
  have f: "findById (mem_model ''n'') (params_id (by_id ''z'')) sample_db = Inr None"
    using v by (simp add: mem_model_def)
  from not_found_leaves_store [OF mem_contract v, of "''n''"] u d f v show ?thesis
    by blast
qed


section \<open>Removing, then fetching\<close>

lemmas mem_eval = mem_model_def mem_view_def mem_without_def key_of_def get_prop_def


text \<open>
  C7: for a stored record, when the delete and the later lookup complete, \<^verbatim>\<open>remove\<close>
  answers 200 and \<^verbatim>\<open>getById\<close> with the same identifier then answers 404 with
  \<^verbatim>\<open>{success: false, message: "Not found"}\<close>.
\<close>

theorem remove_then_getById:
  assumes "store_contract M view" and "view db (params_id req) = Some d"
      and "findByIdAndDelete M (params_id req) db = (Inr r, db')"
      and "findById M (params_id req) db' = Inr r'"
  shows "remove M req db = (Responded 200 deleted, db') \<and>
         getById M req db' = (Responded 404 not_found, db')"
proof -
  from contract_delete [OF assms(1,3)] assms(2)
  have r: "r = Some d" and gone: "view db' (params_id req) = None"
    by simp_all
  have 1: "remove M req db = (Responded 200 deleted, db')"
    using assms(3) r by (simp add: remove_def asyncHandler_def remove_fn_def)
  have "r' = None"
    using contract_findById [OF assms(1,4)] gone by simp
  then have 2: "getById M req db' = (Responded 404 not_found, db')"
    using assms(4) by (simp add: getById_def asyncHandler_def getById_fn_def)
  from 1 2 show ?thesis by simp
qed

theorem remove_then_getById_witness:
  "mem_view sample_db (params_id (by_id ''a'')) = Some [(''_id'', JStr ''a''), (''active'', JBool True)] \<and>
   remove (mem_model ''n'') (by_id ''a'') sample_db =
     (Responded 200 deleted,
      [[(''_id'', JStr ''b''), (''name'', JStr ''B'')], [(''_id'', JStr ''c''), (''active'', JBool False)]]) \<and>
   getById (mem_model ''n'') (by_id ''a'')
      [[(''_id'', JStr ''b''), (''name'', JStr ''B'')], [(''_id'', JStr ''c''), (''active'', JBool False)]] =
     (Responded 404 not_found,
      [[(''_id'', JStr ''b''), (''name'', JStr ''B'')], [(''_id'', JStr ''c''), (''active'', JBool False)]])"
proof -
  let ?d = "[(''_id'', JStr ''a''), (''active'', JBool True)]"
  let ?db' = "[[(''_id'', JStr ''b''), (''name'', JStr ''B'')], [(''_id'', JStr ''c''), (''active'', JBool False)]]"
  have v: "mem_view sample_db (params_id (by_id ''a'')) = Some ?d"
    by (simp add: by_id_def sample_db_def mem_eval)
  have del: "findByIdAndDelete (mem_model ''n'') (params_id (by_id ''a'')) sample_db = (Inr (Some ?d), ?db')"
    by (simp add: by_id_def sample_db_def mem_eval)
  have f: "findById (mem_model ''n'') (params_id (by_id ''a'')) ?db' = Inr None"
    by (simp add: by_id_def mem_eval)
  from remove_then_getById [OF mem_contract v del f] v show ?thesis
    by simp
qed


section \<open>Creating\<close>

text \<open>
  C5: \<^verbatim>\<open>create\<close> answers 400 with \<^verbatim>\<open>{errors: [...]}\<close> and leaves the database alone when
  the validation of the request recorded failures; otherwise, when the document is
  constructed and saved, it answers 201 with \<^verbatim>\<open>{success: true, data}\<close> and the document
  is stored under its identifier.
\<close>

theorem create_validates:
  assumes "store_contract M view"
  shows "(validation_errors req \<noteq> [] \<longrightarrow>
            create M req db =
              (Responded 400 (JObj [(''errors'', JArr (validation_errors req))]), db)) \<and>
         (validation_errors req = [] \<and> construct M (body req) db = Inr d \<and>
          save_doc M d db = (Inr u, db') \<longrightarrow>
            create M req db = (Responded 201 (success_data (JObj d)), db') \<and>
            (\<exists>i. key_of d = Some i \<and> view db' i = Some d))"
proof (intro conjI impI)
  assume "validation_errors req \<noteq> []"
  then show "create M req db =
      (Responded 400 (JObj [(''errors'', JArr (validation_errors req))]), db)"
    by (simp add: create_def asyncHandler_def create_fn_def)
next
  assume h: "validation_errors req = [] \<and> construct M (body req) db = Inr d \<and>
          save_doc M d db = (Inr u, db')"
  then show "create M req db = (Responded 201 (success_data (JObj d)), db')"
    by (simp add: create_def asyncHandler_def create_fn_def)
  from h have c: "construct M (body req) db = Inr d" and s: "save_doc M d db = (Inr u, db')"
    by simp_all
  from contract_construct [OF assms c] obtain i where i: "key_of d = Some i" ..
  from contract_save [OF assms s i] have "view db' i = Some d" by simp
  with i show "\<exists>i. key_of d = Some i \<and> view db' i = Some d" by blast
qed

theorem create_validates_witness:
  "validation_errors (create_req (JObj []) [JObj [(''msg'', JStr ''name is required'')]]) \<noteq> [] \<and>
   create (mem_model ''n'') (create_req (JObj []) [JObj [(''msg'', JStr ''name is required'')]]) sample_db =
     (Responded 400 (JObj [(''errors'', JArr [JObj [(''msg'', JStr ''name is required'')]])]), sample_db) \<and>
   validation_errors (create_req (JObj [(''name'', JStr ''A'')]) []) = [] \<and>
   create (mem_model ''n'') (create_req (JObj [(''name'', JStr ''A'')]) []) sample_db =
     (Responded 201 (success_data (JObj [(''_id'', JStr ''n''), (''name'', JStr ''A'')])),
      [(''_id'', JStr ''n''), (''name'', JStr ''A'')] # sample_db) \<and>
   mem_view ([(''_id'', JStr ''n''), (''name'', JStr ''A'')] # sample_db) ''n'' =
     Some [(''_id'', JStr ''n''), (''name'', JStr ''A'')]"
proof -
  let ?bad = "create_req (JObj []) [JObj [(''msg'', JStr ''name is required'')]]"
  let ?good = "create_req (JObj [(''name'', JStr ''A'')]) []"
  let ?d = "[(''_id'', JStr ''n''), (''name'', JStr ''A'')]"
  have e: "validation_errors ?bad = [JObj [(''msg'', JStr ''name is required'')]]"
    by (simp add: create_req_def)
  have g: "validation_errors ?good = []"
    by (simp add: create_req_def)
  have c: "construct (mem_model ''n'') (body ?good) sample_db = Inr ?d"
    by (simp add: create_req_def mem_model_def)
  have s: "save_doc (mem_model ''n'') ?d sample_db = (Inr (), ?d # sample_db)"
    by (simp add: sample_db_def mem_eval)
  have v: "mem_view (?d # sample_db) ''n'' = Some ?d"
    by (simp add: mem_eval)
  from create_validates [OF mem_contract, of ?bad "''n''" sample_db]
       create_validates [OF mem_contract, of ?good "''n''" sample_db ?d "()" "?d # sample_db"]
       e g c s v
  show ?thesis by simp
qed


section \<open>Failures of the persistence layer\<close>

text \<open>
  C6: in each of the six handlers, when a call to the persistence layer rejects, the
  handler sends no response and the error goes to \<^verbatim>\<open>next\<close>. When both promises of
  \<^verbatim>\<open>getAll\<close> reject, the error that goes to \<^verbatim>\<open>next\<close> is the one of the promise that
  rejects first.
\<close>

theorem failures_are_forwarded:
  "(validation_errors req = [] \<and> construct M (body req) db = Inl e \<longrightarrow>
      create M req db = (Forwarded e, db)) \<and>
   (validation_errors req = [] \<and> construct M (body req) db = Inr d \<and>
    save_doc M d db = (Inl e, db') \<longrightarrow>
      create M req db = (Forwarded e, db')) \<and>
   (countDocuments M (filter_of req) db = Inl e \<and>
    find_lean M (filter_of req) (skip_of req) (limit_of req) db = Inr items \<longrightarrow>
      getAll M req db = (Forwarded e, db)) \<and>
   (countDocuments M (filter_of req) db = Inr tot \<and>
    find_lean M (filter_of req) (skip_of req) (limit_of req) db = Inl e \<longrightarrow>
      getAll M req db = (Forwarded e, db)) \<and>
   (countDocuments M (filter_of req) db = Inl e \<and>
    find_lean M (filter_of req) (skip_of req) (limit_of req) db = Inl e2 \<longrightarrow>
      getAll M req db = (Forwarded (if count_settles_first M then e else e2), db)) \<and>
   (findById M (params_id req) db = Inl e \<longrightarrow>
      getById M req db = (Forwarded e, db) \<and> toggleFlag M req db = (Forwarded e, db)) \<and>
   (findByIdAndUpdate M (params_id req) (body req) db = (Inl e, db') \<longrightarrow>
      update M req db = (Forwarded e, db')) \<and>
   (findByIdAndDelete M (params_id req) db = (Inl e, db') \<longrightarrow>
      remove M req db = (Forwarded e, db')) \<and>
   (findById M (params_id req) db = Inr (Some d) \<and>
    save_doc M (toggle_active d) db = (Inl e, db') \<longrightarrow>
      toggleFlag M req db = (Forwarded e, db'))"
proof (intro conjI impI)
  assume "validation_errors req = [] \<and> construct M (body req) db = Inl e"
  then show "create M req db = (Forwarded e, db)"
    by (simp add: create_def asyncHandler_def create_fn_def)
next
  assume "validation_errors req = [] \<and> construct M (body req) db = Inr d \<and>
    save_doc M d db = (Inl e, db')"
  then show "create M req db = (Forwarded e, db')"
    by (simp add: create_def asyncHandler_def create_fn_def)
next
  assume "countDocuments M (filter_of req) db = Inl e \<and>
    find_lean M (filter_of req) (skip_of req) (limit_of req) db = Inr items"
  then show "getAll M req db = (Forwarded e, db)"
    by (simp add: getAll_def asyncHandler_def getAll_fn_def promise_all_def skip_of_def)
next
  assume "countDocuments M (filter_of req) db = Inr tot \<and>
    find_lean M (filter_of req) (skip_of req) (limit_of req) db = Inl e"
  then show "getAll M req db = (Forwarded e, db)"
    by (simp add: getAll_def asyncHandler_def getAll_fn_def promise_all_def skip_of_def)
next
  assume "countDocuments M (filter_of req) db = Inl e \<and>
    find_lean M (filter_of req) (skip_of req) (limit_of req) db = Inl e2"
  then show "getAll M req db = (Forwarded (if count_settles_first M then e else e2), db)"
    by (simp add: getAll_def asyncHandler_def getAll_fn_def promise_all_def skip_of_def)
next
  assume "findById M (params_id req) db = Inl e"
  then show "getById M req db = (Forwarded e, db)"
    by (simp add: getById_def asyncHandler_def getById_fn_def)
next
  assume "findById M (params_id req) db = Inl e"
  then show "toggleFlag M req db = (Forwarded e, db)"
    by (simp add: toggleFlag_def asyncHandler_def toggleFlag_fn_def)
next
  assume "findByIdAndUpdate M (params_id req) (body req) db = (Inl e, db')"
  then show "update M req db = (Forwarded e, db')"
    by (simp add: update_def asyncHandler_def update_fn_def)
next
  assume "findByIdAndDelete M (params_id req) db = (Inl e, db')"
  then show "remove M req db = (Forwarded e, db')"
    by (simp add: remove_def asyncHandler_def remove_fn_def)
next
  assume "findById M (params_id req) db = Inr (Some d) \<and>
    save_doc M (toggle_active d) db = (Inl e, db')"
  then show "toggleFlag M req db = (Forwarded e, db')"
    by (simp add: toggleFlag_def asyncHandler_def toggleFlag_fn_def)
qed

theorem failures_are_forwarded_witness:
  "validation_errors (by_id ''a'') = [] \<and>
   construct down_model (body (by_id ''a'')) () = Inl ConnectionError \<and>
   create down_model (by_id ''a'') () = (Forwarded ConnectionError, ()) \<and>
   countDocuments down_model (filter_of (by_id ''a'')) () = Inl ConnectionError \<and>
   find_lean down_model (filter_of (by_id ''a'')) (skip_of (by_id ''a'')) (limit_of (by_id ''a'')) ()
     = Inl ConnectionError \<and>
   getAll down_model (by_id ''a'') () = (Forwarded ConnectionError, ()) \<and>
   findById down_model (params_id (by_id ''a'')) () = Inl ConnectionError \<and>
   getById down_model (by_id ''a'') () = (Forwarded ConnectionError, ()) \<and>
   toggleFlag down_model (by_id ''a'') () = (Forwarded ConnectionError, ()) \<and>
   findByIdAndUpdate down_model (params_id (by_id ''a'')) (body (by_id ''a'')) () =
     (Inl ConnectionError, ()) \<and>
   update down_model (by_id ''a'') () = (Forwarded ConnectionError, ()) \<and>
   findByIdAndDelete down_model (params_id (by_id ''a'')) () = (Inl ConnectionError, ()) \<and>
   remove down_model (by_id ''a'') () = (Forwarded ConnectionError, ()) \<and>
   construct no_write_model (body (by_id ''a'')) sample_db = Inr [(''_id'', JStr ''n'')] \<and>
   save_doc no_write_model [(''_id'', JStr ''n'')] sample_db = (Inl ConnectionError, sample_db) \<and>
   create no_write_model (by_id ''a'') sample_db = (Forwarded ConnectionError, sample_db) \<and>
   findById no_write_model (params_id (by_id ''a'')) sample_db =
     Inr (Some [(''_id'', JStr ''a''), (''active'', JBool True)]) \<and>
   save_doc no_write_model (toggle_active [(''_id'', JStr ''a''), (''active'', JBool True)]) sample_db =
     (Inl ConnectionError, sample_db) \<and>
   toggleFlag no_write_model (by_id ''a'') sample_db = (Forwarded ConnectionError, sample_db) \<and>
   countDocuments no_count_model (filter_of (by_id ''a'')) sample_db = Inl ConnectionError \<and>
   find_lean no_count_model (filter_of (by_id ''a'')) (skip_of (by_id ''a'')) (limit_of (by_id ''a''))
     sample_db = Inr sample_db \<and>
   getAll no_count_model (by_id ''a'') sample_db = (Forwarded ConnectionError, sample_db) \<and>
   countDocuments (mem_model ''n'') (filter_of (query None (Some ''x''))) sample_db = Inr 3 \<and>
   find_lean (mem_model ''n'') (filter_of (query None (Some ''x''))) (skip_of (query None (Some ''x'')))
     (limit_of (query None (Some ''x''))) sample_db = Inl CastError \<and>
   getAll (mem_model ''n'') (query None (Some ''x'')) sample_db = (Forwarded CastError, sample_db)"
proof -
  let ?r = "by_id ''a''"
  let ?d = "[(''_id'', JStr ''a''), (''active'', JBool True)]"
  let ?q = "query None (Some ''x'')"
  have r: "validation_errors ?r = []" "body ?r = JObj []" "params_id ?r = ''a''"
      "filter_of ?r = NoFilter"
    by (simp_all add: by_id_def filter_of_def)
  have l: "limit_of ?r = Fin 25" "skip_of ?r = Fin 0"
    by (simp_all add: skip_of_def page_of_def limit_of_def or_else_def by_id_def
        parseInt_1 parseInt_25)
  have q: "filter_of ?q = NoFilter" "limit_of ?q = NaN"
    by (simp_all add: filter_of_def limit_of_def query_def parse_defs)
  have down:
    "construct down_model (body ?r) () = Inl ConnectionError"
    "countDocuments down_model (filter_of ?r) () = Inl ConnectionError"
    "find_lean down_model (filter_of ?r) (skip_of ?r) (limit_of ?r) () = Inl ConnectionError"
    "findById down_model (params_id ?r) () = Inl ConnectionError"
    "findByIdAndUpdate down_model (params_id ?r) (body ?r) () = (Inl ConnectionError, ())"
    "findByIdAndDelete down_model (params_id ?r) () = (Inl ConnectionError, ())"
    by (simp_all add: down_model_def)
  have nw:
    "construct no_write_model (body ?r) sample_db = Inr [(''_id'', JStr ''n'')]"
    "save_doc no_write_model [(''_id'', JStr ''n'')] sample_db = (Inl ConnectionError, sample_db)"
    "findById no_write_model (params_id ?r) sample_db = Inr (Some ?d)"
    "save_doc no_write_model (toggle_active ?d) sample_db = (Inl ConnectionError, sample_db)"
    by (simp_all add: r no_write_model_def sample_db_def mem_eval)
  have nc:
    "countDocuments no_count_model (filter_of ?r) sample_db = Inl ConnectionError"
    "find_lean no_count_model (filter_of ?r) (skip_of ?r) (limit_of ?r) sample_db = Inr sample_db"
    by (simp_all add: r l no_count_model_def mem_model_def mem_window_def sample_db_def)
  have nf:
    "countDocuments (mem_model ''n'') (filter_of ?q) sample_db = Inr 3"
    "find_lean (mem_model ''n'') (filter_of ?q) (skip_of ?q) (limit_of ?q) sample_db = Inl CastError"
    by (simp_all add: q mem_model_def mem_window_def sample_db_def split: number.splits)
  have cs: "count_settles_first down_model"
    by (simp add: down_model_def)
  note a = failures_are_forwarded [where M = down_model and req = ?r and db = "()"
      and e = ConnectionError and ?e2.0 = ConnectionError and db' = "()"]
  note b = failures_are_forwarded [where M = no_write_model and req = ?r and db = sample_db
      and e = ConnectionError and db' = sample_db and d = "[(''_id'', JStr ''n'')]"]
  note b' = failures_are_forwarded [where M = no_write_model and req = ?r and db = sample_db
      and e = ConnectionError and db' = sample_db and d = ?d]
  note c = failures_are_forwarded [where M = no_count_model and req = ?r and db = sample_db
      and e = ConnectionError and items = sample_db]
  note d = failures_are_forwarded [where M = "mem_model ''n''" and req = ?q and db = sample_db
      and e = CastError and tot = 3]
  have 1: "create down_model ?r () = (Forwarded ConnectionError, ())"
    using a r(1) down(1) by blast
  have 2: "getAll down_model ?r () = (Forwarded ConnectionError, ())"
    using a down(2,3) cs by simp
  have 3: "getById down_model ?r () = (Forwarded ConnectionError, ())"
      "toggleFlag down_model ?r () = (Forwarded ConnectionError, ())"
    using a down(4) by blast+
  have 4: "update down_model ?r () = (Forwarded ConnectionError, ())"
    using a down(5) by blast
  have 5: "remove down_model ?r () = (Forwarded ConnectionError, ())"
    using a down(6) by blast
  have 6: "create no_write_model ?r sample_db = (Forwarded ConnectionError, sample_db)"
    using b r(1) nw(1,2) by blast
  have 7: "toggleFlag no_write_model ?r sample_db = (Forwarded ConnectionError, sample_db)"
    using b' nw(3,4) by blast
  have 8: "getAll no_count_model ?r sample_db = (Forwarded ConnectionError, sample_db)"
    using c nc by blast
  have 9: "getAll (mem_model ''n'') ?q sample_db = (Forwarded CastError, sample_db)"
    using d nf by blast
  from r(1) down nw nc nf 1 2 3 4 5 6 7 8 9 show ?thesis
    by (intro conjI)
qed


section \<open>Toggling the flag\<close>

lemma key_of_toggle_active: "key_of (toggle_active d) = key_of d"
  by (simp add: toggle_active_def key_of_set_prop)

lemma active_toggle_active:
  "get_prop (toggle_active d) ''active'' = Some (JBool (\<not> truthy (get_prop d ''active'')))"
  by (simp add: toggle_active_def get_set_prop)

lemma toggleFlag_completes:
  assumes "findById M (params_id req) db = Inr (Some d)"
      and "save_doc M (toggle_active d) db = (Inr u, db')"
  shows "toggleFlag M req db = (Responded 200 (success_data (JObj (toggle_active d))), db')"
  using assms by (simp add: toggleFlag_def asyncHandler_def toggleFlag_fn_def)

lemma toggleFlag_responded:
  assumes "store_contract M view" and "view db (params_id req) = Some d"
      and "toggleFlag M req db = (Responded st b, db')"
  shows "st = 200 \<and> b = success_data (JObj (toggle_active d)) \<and>
         view db' = (view db)(params_id req \<mapsto> toggle_active d)"
proof (cases "findById M (params_id req) db")
  case (Inl e)
  with assms(3) show ?thesis
    by (simp add: toggleFlag_def asyncHandler_def toggleFlag_fn_def)
next
  case (Inr r)
  have r: "r = Some d"
    using contract_findById [OF assms(1) Inr] assms(2) by simp
  obtain res db1 where sv: "save_doc M (toggle_active d) db = (res, db1)"
    by (cases "save_doc M (toggle_active d) db")
  show ?thesis
  proof (cases res)
    case (Inl e)
    with \<open>findById M (params_id req) db = Inr r\<close> r sv assms(3) show ?thesis
      by (simp add: toggleFlag_def asyncHandler_def toggleFlag_fn_def)
  next
    case (Inr u)
    with \<open>findById M (params_id req) db = Inr r\<close> r sv assms(3)
    have eq: "st = 200" "b = success_data (JObj (toggle_active d))" "db' = db1"
      by (simp_all add: toggleFlag_def asyncHandler_def toggleFlag_fn_def)
    have k: "key_of (toggle_active d) = Some (params_id req)"
      using contract_key [OF assms(1,2)] by (simp add: key_of_toggle_active)
    have "save_doc M (toggle_active d) db = (Inr u, db')"
      using sv Inr eq by simp
    from contract_save [OF assms(1) this k] eq
    show ?thesis by simp
  qed
qed

lemma set_prop_fresh: "get_prop d k = None \<Longrightarrow> set_prop d k v = d @ [(k, v)]"
  by (induction d k v rule: set_prop.induct) (auto simp: get_prop_def split: if_splits)


text \<open>
  C8, as the specification states it, covers every stored record. The stored record
  \<^verbatim>\<open>b\<close> has no \<^verbatim>\<open>active\<close> property; after two toggles its \<^verbatim>\<open>active\<close> is \<^verbatim>\<open>false\<close>, which
  is not the value it had.
\<close>

theorem toggleFlag_twice_counterexample:
  "mem_view sample_db ''b'' = Some [(''_id'', JStr ''b''), (''name'', JStr ''B'')] \<and>
   mem_view (snd (toggleFlag (mem_model ''n'') (by_id ''b'')
              (snd (toggleFlag (mem_model ''n'') (by_id ''b'') sample_db)))) ''b'' =
     Some [(''_id'', JStr ''b''), (''name'', JStr ''B''), (''active'', JBool False)] \<and>
   get_prop [(''_id'', JStr ''b''), (''name'', JStr ''B''), (''active'', JBool False)] ''active'' \<noteq>
   get_prop [(''_id'', JStr ''b''), (''name'', JStr ''B'')] ''active''"
  by (simp add: toggleFlag_def asyncHandler_def toggleFlag_fn_def toggle_active_def by_id_def Let_def
      sample_db_def mem_eval)


text \<open>
  C8, amended: for every stored record whose \<^verbatim>\<open>active\<close> is a boolean, two toggles in
  succession that both answer leave the record stored with its original \<^verbatim>\<open>active\<close>.
\<close>

theorem toggleFlag_twice:
  assumes "store_contract M view" and "view db (params_id req) = Some d"
      and "get_prop d ''active'' = Some (JBool a)"
      and "toggleFlag M req db = (Responded st1 b1, db1)"
      and "toggleFlag M req db1 = (Responded st2 b2, db2)"
  shows "\<exists>d2. view db2 (params_id req) = Some d2 \<and> get_prop d2 ''active'' = Some (JBool a)"
proof -
  let ?d1 = "toggle_active d"
  from toggleFlag_responded [OF assms(1,2,4)]
  have v1: "view db1 (params_id req) = Some ?d1" by simp
  from toggleFlag_responded [OF assms(1) v1 assms(5)]
  have v2: "view db2 (params_id req) = Some (toggle_active ?d1)" by simp
  have "get_prop (toggle_active ?d1) ''active'' = Some (JBool a)"
    using assms(3) by (simp add: active_toggle_active)
  with v2 show ?thesis by blast
qed

theorem toggleFlag_twice_witness:
  "mem_view sample_db (params_id (by_id ''a'')) = Some [(''_id'', JStr ''a''), (''active'', JBool True)] \<and>
   get_prop [(''_id'', JStr ''a''), (''active'', JBool True)] ''active'' = Some (JBool True) \<and>
   toggleFlag (mem_model ''n'') (by_id ''a'') sample_db =
     (Responded 200 (success_data (JObj [(''_id'', JStr ''a''), (''active'', JBool False)])),
      [[(''_id'', JStr ''a''), (''active'', JBool False)],
       [(''_id'', JStr ''b''), (''name'', JStr ''B'')],
       [(''_id'', JStr ''c''), (''active'', JBool False)]]) \<and>
   toggleFlag (mem_model ''n'') (by_id ''a'')
      [[(''_id'', JStr ''a''), (''active'', JBool False)],
       [(''_id'', JStr ''b''), (''name'', JStr ''B'')],
       [(''_id'', JStr ''c''), (''active'', JBool False)]] =
     (Responded 200 (success_data (JObj [(''_id'', JStr ''a''), (''active'', JBool True)])), sample_db) \<and>
   (\<exists>d2. mem_view sample_db (params_id (by_id ''a'')) = Some d2 \<and>
         get_prop d2 ''active'' = Some (JBool True))"
proof -
  let ?d = "[(''_id'', JStr ''a''), (''active'', JBool True)]"
  let ?db1 = "[[(''_id'', JStr ''a''), (''active'', JBool False)],
       [(''_id'', JStr ''b''), (''name'', JStr ''B'')],
       [(''_id'', JStr ''c''), (''active'', JBool False)]]"
  have v: "mem_view sample_db (params_id (by_id ''a'')) = Some ?d"
    by (simp add: by_id_def sample_db_def mem_eval)
  have a: "get_prop ?d ''active'' = Some (JBool True)"
    by (simp add: get_prop_def)
  have t1: "toggleFlag (mem_model ''n'') (by_id ''a'') sample_db =
     (Responded 200 (success_data (JObj [(''_id'', JStr ''a''), (''active'', JBool False)])), ?db1)"
    by (simp add: toggleFlag_def asyncHandler_def toggleFlag_fn_def toggle_active_def by_id_def Let_def
      sample_db_def mem_eval)
  have t2: "toggleFlag (mem_model ''n'') (by_id ''a'') ?db1 =
     (Responded 200 (success_data (JObj ?d)), sample_db)"
    by (simp add: toggleFlag_def asyncHandler_def toggleFlag_fn_def toggle_active_def by_id_def Let_def
      sample_db_def mem_eval)
  from toggleFlag_twice [OF mem_contract v a t1 t2] v a t1 t2 show ?thesis
    by simp
qed


text \<open>
  C10: for a stored record without an \<^verbatim>\<open>active\<close> property, when the lookup and the
  save complete, \<^verbatim>\<open>toggleFlag\<close> answers 200 and the record is returned and stored with
  \<^verbatim>\<open>active\<close> set to \<^verbatim>\<open>true\<close>, added as its last property.
\<close>

theorem toggleFlag_missing_flag:
  assumes "store_contract M view" and "view db (params_id req) = Some d"
      and "get_prop d ''active'' = None"
      and "findById M (params_id req) db = Inr r"
      and "save_doc M (d @ [(''active'', JBool True)]) db = (Inr u, db')"
  shows "toggleFlag M req db =
           (Responded 200 (success_data (JObj (d @ [(''active'', JBool True)]))), db') \<and>
         get_prop (d @ [(''active'', JBool True)]) ''active'' = Some (JBool True) \<and>
         view db' (params_id req) = Some (d @ [(''active'', JBool True)])"
proof -
  have t: "toggle_active d = d @ [(''active'', JBool True)]"
    using assms(3) by (simp add: toggle_active_def set_prop_fresh)
  have r: "findById M (params_id req) db = Inr (Some d)"
    using contract_findById [OF assms(1,4)] assms(2,4) by simp
  have sv: "save_doc M (toggle_active d) db = (Inr u, db')"
    using assms(5) t by simp
  have 1: "toggleFlag M req db = (Responded 200 (success_data (JObj (toggle_active d))), db')"
    using r sv by (rule toggleFlag_completes)
  have 2: "get_prop (toggle_active d) ''active'' = Some (JBool True)"
    using assms(3) by (simp add: active_toggle_active)
  from toggleFlag_responded [OF assms(1,2) 1]
  have 3: "view db' (params_id req) = Some (toggle_active d)" by simp
  from 1 2 3 show ?thesis unfolding t by simp
qed

theorem toggleFlag_missing_flag_witness:
  "mem_view sample_db (params_id (by_id ''b'')) = Some [(''_id'', JStr ''b''), (''name'', JStr ''B'')] \<and>
   get_prop [(''_id'', JStr ''b''), (''name'', JStr ''B'')] ''active'' = None \<and>
   toggleFlag (mem_model ''n'') (by_id ''b'') sample_db =
     (Responded 200
        (success_data (JObj [(''_id'', JStr ''b''), (''name'', JStr ''B''), (''active'', JBool True)])),
      [[(''_id'', JStr ''b''), (''name'', JStr ''B''), (''active'', JBool True)],
       [(''_id'', JStr ''a''), (''active'', JBool True)],
       [(''_id'', JStr ''c''), (''active'', JBool False)]]) \<and>
   mem_view [[(''_id'', JStr ''b''), (''name'', JStr ''B''), (''active'', JBool True)],
       [(''_id'', JStr ''a''), (''active'', JBool True)],
       [(''_id'', JStr ''c''), (''active'', JBool False)]] (params_id (by_id ''b'')) =
     Some [(''_id'', JStr ''b''), (''name'', JStr ''B''), (''active'', JBool True)]"
proof -
  let ?d = "[(''_id'', JStr ''b''), (''name'', JStr ''B'')]"
  let ?db' = "[[(''_id'', JStr ''b''), (''name'', JStr ''B''), (''active'', JBool True)],
       [(''_id'', JStr ''a''), (''active'', JBool True)],
       [(''_id'', JStr ''c''), (''active'', JBool False)]]"
  have v: "mem_view sample_db (params_id (by_id ''b'')) = Some ?d"
    by (simp add: by_id_def sample_db_def mem_eval)
  have a: "get_prop ?d ''active'' = None"
    by (simp add: get_prop_def)
  have f: "findById (mem_model ''n'') (params_id (by_id ''b'')) sample_db = Inr (Some ?d)"
    using v by (simp add: mem_model_def)
  have s: "save_doc (mem_model ''n'') (?d @ [(''active'', JBool True)]) sample_db = (Inr (), ?db')"
    by (simp add: sample_db_def mem_eval)
  from toggleFlag_missing_flag [OF mem_contract v a f s] v a show ?thesis
    by simp
qed


end
